theory Spec2Isabelle
  imports Main
begin

section \<open>Text and exceptions\<close>

text \<open>
  A Python \<open>str\<close> is the list of its code points (type \<open>str\<close>); \<open>lit s\<close> is the
  \<open>str\<close> that an ASCII literal \<open>s\<close> of the source denotes, and a character of a
  literal beyond ASCII is written as its code point. A Python \<open>bytes\<close> value is a
  \<^typ>\<open>string\<close>, whose characters are bytes.

  The exceptions the hooks can meet are the values of \<open>exn\<close>; all of them are
  subclasses of Python's \<open>Exception\<close>. \<open>CalledProcessError\<close> carries the return code and
  the command; \<open>OSError\<close> stands for any other operating system error.
\<close>

type_synonym str = "nat list"

definition lit :: "string \<Rightarrow> str" where
  "lit s = map of_char s"

datatype exn =
    ValueError str
  | FileExistsError
  | FileNotFoundError
  | NotADirectoryError
  | IsADirectoryError
  | PermissionError
  | OSError str
  | RuntimeError str
  | UnicodeDecodeError
  | UnicodeEncodeError
  | CalledProcessError int "string list"

section \<open>The placeholder API routes (\<open>server/api/agent_routes.py\<close>)\<close>

text \<open>
  A route handler returns a dict literal; it is modelled as the association list of its
  items in the order of the literal, read with \<^const>\<open>map_of\<close>.
\<close>

datatype json = JStr str | JList "json list"

definition list_agents :: "(str \<times> json) list" where
  "list_agents =
     [(lit ''agents'',
       JList [JStr (lit ''chat_agent''), JStr (lit ''task_agent''), JStr (lit ''research_agent'')])]"

definition start_agent :: "str \<Rightarrow> (str \<times> json) list" where
  "start_agent agent_name =
     [(lit ''message'', JStr (lit ''Agent '' @ agent_name @ lit '' started'')),
      (lit ''status'', JStr (lit ''success''))]"

text \<open>\<open>listed_agent n\<close>: the name \<open>n\<close> is one of those that \<open>list_agents\<close> returns.\<close>

definition listed_agent :: "str \<Rightarrow> bool" where
  "listed_agent n =
     (case map_of list_agents (lit ''agents'') of
        Some (JList js) \<Rightarrow> JStr n \<in> set js
      | _ \<Rightarrow> False)"

section \<open>The pre-generation hook (\<open>hooks/pre_gen_project.py\<close>)\<close>

subsection \<open>The regular expression\<close>

text \<open>
  \<open>\d\<close> in a \<open>str\<close> pattern matches every Unicode decimal digit (category Nd). The
  decimal digits come in runs of ten, from the digit zero of a script to its digit
  nine; \<open>decimal_zeros\<close> lists the zeros of Unicode 14.0, the version of Python 3.11
  (a later version of Unicode adds runs and removes none).
\<close>

definition decimal_zeros :: "nat list" where
  "decimal_zeros =
     [0x0030, 0x0660, 0x06F0, 0x07C0, 0x0966, 0x09E6, 0x0A66, 0x0AE6, 0x0B66, 0x0BE6,
      0x0C66, 0x0CE6, 0x0D66, 0x0DE6, 0x0E50, 0x0ED0, 0x0F20, 0x1040, 0x1090, 0x17E0,
      0x1810, 0x1946, 0x19D0, 0x1A80, 0x1A90, 0x1B50, 0x1BB0, 0x1C40, 0x1C50, 0xA620,
      0xA8D0, 0xA900, 0xA9D0, 0xA9F0, 0xAA50, 0xABF0, 0xFF10, 0x104A0, 0x10D30, 0x11066,
      0x110F0, 0x11136, 0x111D0, 0x112F0, 0x11450, 0x114D0, 0x11650, 0x116C0, 0x11730,
      0x118E0, 0x11950, 0x11C50, 0x11D50, 0x11DA0, 0x16A60, 0x16AC0, 0x16B50, 0x1D7CE,
      0x1D7D8, 0x1D7E2, 0x1D7EC, 0x1D7F6, 0x1E140, 0x1E2F0, 0x1E950, 0x1FBF0]"

definition is_decimal :: "nat \<Rightarrow> bool" where
  "is_decimal c = list_ex (\<lambda>z. z \<le> c \<and> c < z + 10) decimal_zeros"

text \<open>
  The fragment of Python's \<open>re\<close> syntax that \<open>PY_VER_RE\<close> uses: \<open>^\<close>, \<open>$\<close>, an escaped
  literal character and a greedy \<open>+\<close> over a character class. Without flags, \<open>^\<close>
  matches at the start of the string only, and \<open>$\<close> matches at the end of the string
  and just before a line feed that is the last character of the string.

  \<open>rx_from p pos s\<close>: pattern \<open>p\<close> matches at position \<open>pos\<close>, where \<open>s\<close> is the rest of
  the subject from \<open>pos\<close> on. A \<open>+\<close> tries the longest run first and backtracks to
  shorter ones. \<open>re_match\<close> is \<open>Pattern.match\<close>: a match starting at position 0, which
  need not reach the end of the subject.
\<close>

datatype cls = Digit

datatype atom = Caret | Dollar | Escaped nat | Plus cls

fun cls_match :: "cls \<Rightarrow> nat \<Rightarrow> bool" where
  "cls_match Digit c = is_decimal c"

fun rx_from :: "atom list \<Rightarrow> nat \<Rightarrow> str \<Rightarrow> bool" where
  "rx_from [] pos s = True"
| "rx_from (Caret # p) pos s = (pos = 0 \<and> rx_from p pos s)"
| "rx_from (Dollar # p) pos s = ((s = [] \<or> s = [0x0A]) \<and> rx_from p pos s)"
| "rx_from (Escaped c # p) pos s =
     (case s of [] \<Rightarrow> False | x # xs \<Rightarrow> x = c \<and> rx_from p (Suc pos) xs)"
| "rx_from (Plus k # p) pos s =
     list_ex (\<lambda>n. rx_from p (pos + n) (drop n s))
       (rev [1 ..< Suc (length (takeWhile (cls_match k) s))])"

definition re_match :: "atom list \<Rightarrow> str \<Rightarrow> bool" where
  "re_match p s = rx_from p 0 s"

definition PY_VER_RE :: "atom list" where
  "PY_VER_RE = [Caret, Plus Digit, Escaped (of_char CHR ''.''), Plus Digit, Dollar]"

text \<open>
  What the pattern is meant to accept, said without the matcher: a non-empty run of
  decimal digits, a dot, a non-empty run of decimal digits and then the end of the
  string, or one line feed and the end of the string (which \<open>$\<close> admits). A decimal
  digit is a code point at most nine above the digit zero of its script.
\<close>

definition decimal_digit :: "nat \<Rightarrow> bool" where
  "decimal_digit c = (\<exists>z \<in> set decimal_zeros. \<exists>d < 10. c = z + d)"

definition version_text :: "str \<Rightarrow> bool" where
  "version_text s =
     (\<exists>a b. a \<noteq> [] \<and> b \<noteq> []
        \<and> list_all decimal_digit a \<and> list_all decimal_digit b
        \<and> (s = a @ lit ''.'' @ b \<or> s = a @ lit ''.'' @ b @ [0x0A]))"

subsection \<open>The hook\<close>

text \<open>\<open>str_int\<close> is the text an f-string gives a non-negative integer: its decimal digits.\<close>

fun digit_char :: "nat \<Rightarrow> nat" where
  "digit_char n = of_char CHR ''0'' + n mod 10"

function str_int :: "nat \<Rightarrow> str" where
  "str_int n = (if n < 10 then [digit_char n] else str_int (n div 10) @ [digit_char n])"
  by pat_completeness auto
termination
  by (relation "measure (\<lambda>n. n)") auto

text \<open>
  The hook reads \<open>sys.version_info\<close> (major and minor) and the version string that the
  template tool substituted into the script. It either raises, before anything is
  written, or ends normally; \<open>Inr ws\<close> is a normal end (exit status 0) with \<open>ws\<close> the
  texts written to \<open>sys.stderr\<close>, in order. (The error stream replaces what it cannot
  encode, so the write itself does not raise.)
\<close>

definition cur_ver :: "nat \<times> nat \<Rightarrow> str" where
  "cur_ver version_info = str_int (fst version_info) @ lit ''.'' @ str_int (snd version_info)"

definition version_warning :: "str \<Rightarrow> str \<Rightarrow> str" where
  "version_warning cur python_version =
     lit ''[cookiecutter] WARNING: Your current Python is '' @ cur @ lit '', ''
     @ lit ''but cookiecutter.python_version is '' @ python_version @ lit ''.'' @ [0x0A]
     @ lit ''We'' @ [0x27]
     @ lit ''ll still generate the project; the post-gen hook can create a venv.''
     @ [0x0A]"

definition pre_gen_project :: "nat \<times> nat \<Rightarrow> str \<Rightarrow> exn + str list" where
  "pre_gen_project version_info python_version =
     (if \<not> re_match PY_VER_RE python_version then
        Inl (ValueError (lit ''python_version must be like '' @ [0x27] @ lit ''3.12'' @ [0x27]
                         @ lit '', got: '' @ python_version))
      else if cur_ver version_info \<noteq> python_version then
        Inr [version_warning (cur_ver version_info) python_version]
      else Inr [])"

section \<open>The post-generation hook (\<open>hooks/post_gen_project.py\<close>)\<close>

subsection \<open>The host and the state of a run\<close>

text \<open>
  What the hook reads from its surroundings and cannot change is the \<open>host\<close>: the
  operating system's name, the working directory, which paths the process may not
  create or overwrite (\<open>denied\<close>), \<open>shutil.which\<close>, \<open>sys.executable\<close> (Python documents
  that it is an empty string or \<open>None\<close> when the interpreter's path cannot be found),
  \<open>Path.expanduser\<close> and \<open>Path.resolve\<close> (as functions on the path's text, each of
  which may raise), what running a command gives (\<open>run\<close>), what a shell command does to
  the environment of the child process that executes it (\<open>shell\<close>), and the text of an
  exception (\<open>str_exc\<close>, Python's \<open>str(e)\<close>).

  What a run changes is the \<open>world\<close>: the entries of the file system, the texts
  printed to standard output (one per \<open>print\<close> call, which adds the line end), the
  commands started as subprocesses, and the environment variables of the hook's own
  process.
\<close>

datatype node = Dir | File string

datatype proc = Launch_failed exn | Exit int string

record host =
  os_name :: string
  getcwd :: string
  denied :: "string list \<Rightarrow> bool"
  which :: "string \<Rightarrow> string option"
  sys_executable :: "string option"
  expanduser :: "string \<Rightarrow> exn + string"
  resolve :: "string \<Rightarrow> exn + string"
  run :: "string list \<Rightarrow> proc"
  shell :: "string \<Rightarrow> (string \<rightharpoonup> string) \<Rightarrow> (string \<rightharpoonup> string) \<times> proc"
  str_exc :: "exn \<Rightarrow> string"

record world =
  entries :: "string list \<rightharpoonup> node"
  stdout :: "string list"
  spawned :: "string list list"
  environ :: "string \<rightharpoonup> string"

definition print :: "string \<Rightarrow> world \<Rightarrow> world" where
  "print s w = w\<lparr>stdout := stdout w @ [s]\<rparr>"

subsection \<open>Text operations\<close>

text \<open>
  \<open>str.lower\<close>, \<open>str.isspace\<close> and \<open>str.strip\<close> on code points below 256: the upper
  case letters are \<open>A\<close> to \<open>Z\<close> and U+00C0 to U+00DE without the multiplication sign
  U+00D7, each 32 below its lower case letter; the white space characters are U+0009 to
  U+000D, U+001C to U+0020, U+0085 and U+00A0.
\<close>

definition lower_char :: "char \<Rightarrow> char" where
  "lower_char c =
     (let n = (of_char c :: nat)
      in if (65 \<le> n \<and> n \<le> 90) \<or> (192 \<le> n \<and> n \<le> 222 \<and> n \<noteq> 215)
         then char_of (n + 32) else c)"

definition lower :: "string \<Rightarrow> string" where
  "lower s = map lower_char s"

definition isspace :: "char \<Rightarrow> bool" where
  "isspace c =
     (let n = (of_char c :: nat)
      in (9 \<le> n \<and> n \<le> 13) \<or> (28 \<le> n \<and> n \<le> 32) \<or> n = 133 \<or> n = 160)"

definition strip :: "string \<Rightarrow> string" where
  "strip s = rev (dropWhile isspace (rev (dropWhile isspace s)))"

text \<open>
  \<open>bytes.decode\<close> (UTF-8) into that range: a byte below 0x80 is its own code point, and
  a lead byte 0xC2 or 0xC3 with one continuation byte gives a code point from U+0080 to
  U+00FF. Any other byte sequence is either malformed, and \<open>decode\<close> raises, or gives a
  code point beyond the strings of this model, and is treated alike.
\<close>

fun decode :: "string \<Rightarrow> exn + string" where
  "decode [] = Inr []"
| "decode (c # cs) =
     (let n = (of_char c :: nat) in
      if n < 128 then
        (case decode cs of Inl e \<Rightarrow> Inl e | Inr s \<Rightarrow> Inr (c # s))
      else if n = 194 \<or> n = 195 then
        (case cs of
           [] \<Rightarrow> Inl UnicodeDecodeError
         | d # ds \<Rightarrow>
             (let m = (of_char d :: nat) in
              if 128 \<le> m \<and> m < 192 then
                (case decode ds of
                   Inl e \<Rightarrow> Inl e
                 | Inr s \<Rightarrow> Inr (char_of ((n - 192) * 64 + (m - 128)) # s))
              else Inl UnicodeDecodeError))
      else Inl UnicodeDecodeError)"

subsection \<open>Paths\<close>

text \<open>
  \<open>os.path.join\<close> (of two parts) and \<open>os.path.dirname\<close>, for paths without a drive
  letter: \<open>posixpath\<close> knows the separator \<open>/\<close>, \<open>ntpath\<close> (when \<open>os.name\<close> is \<open>nt\<close>) joins
  with a backslash and splits at both. \<open>joinpath\<close> is \<open>pathlib\<close>'s \<open>/\<close> on the text of a
  path. \<open>parts\<close> gives the components the operating system walks through when it
  resolves a relative path: empty components and \<open>.\<close> do not count (\<open>split_from\<close>
  cuts the text at the separators, \<open>cur\<close> being the component read so far, reversed).
\<close>

definition seps :: "host \<Rightarrow> string" where
  "seps h = (if os_name h = ''nt'' then [CHR 0x5C, CHR ''/''] else [CHR ''/''])"

definition sep :: "host \<Rightarrow> char" where
  "sep h = (if os_name h = ''nt'' then CHR 0x5C else CHR ''/'')"

definition os_path_join :: "host \<Rightarrow> string \<Rightarrow> string \<Rightarrow> string" where
  "os_path_join h a b =
     (if b \<noteq> [] \<and> hd b \<in> set (seps h) then b
      else if a = [] \<or> last a \<in> set (seps h) then a @ b
      else a @ [sep h] @ b)"

definition os_path_dirname :: "host \<Rightarrow> string \<Rightarrow> string" where
  "os_path_dirname h p =
     (let head = rev (dropWhile (\<lambda>c. c \<notin> set (seps h)) (rev p))
      in if head \<noteq> [] \<and> \<not> list_all (\<lambda>c. c \<in> set (seps h)) head
         then rev (dropWhile (\<lambda>c. c \<in> set (seps h)) (rev head))
         else head)"

definition joinpath :: "host \<Rightarrow> string \<Rightarrow> string \<Rightarrow> string" where
  "joinpath h p c =
     (if p = [] then c
      else if last p \<in> set (seps h) then p @ c
      else p @ [sep h] @ c)"

fun split_from :: "(char \<Rightarrow> bool) \<Rightarrow> string \<Rightarrow> string \<Rightarrow> string list" where
  "split_from P cur [] = [rev cur]"
| "split_from P cur (c # cs) =
     (if P c then rev cur # split_from P [] cs else split_from P (c # cur) cs)"

definition split_at :: "(char \<Rightarrow> bool) \<Rightarrow> string \<Rightarrow> string list" where
  "split_at P s = split_from P [] s"

definition parts :: "host \<Rightarrow> string \<Rightarrow> string list" where
  "parts h p = filter (\<lambda>c. c \<noteq> [] \<and> c \<noteq> ''.'') (split_at (\<lambda>c. c \<in> set (seps h)) p)"

subsection \<open>The file system\<close>

text \<open>
  The entries of the file system are kept under their relative paths, as lists of
  components counted from the working directory; a path may climb with \<open>..\<close> at its
  start only. The working directory and the directories above it always exist
  (\<open>entry_at\<close>). \<open>walk es pre cs\<close> resolves the components \<open>cs\<close> from the directory
  \<open>pre\<close> on: every component but the last must be a directory.
\<close>

definition entry_at :: "(string list \<rightharpoonup> node) \<Rightarrow> string list \<Rightarrow> node option" where
  "entry_at es p = (if list_all (\<lambda>c. c = ''..'') p then Some Dir else es p)"

fun walk :: "(string list \<rightharpoonup> node) \<Rightarrow> string list \<Rightarrow> string list \<Rightarrow> node option" where
  "walk es pre [] = Some Dir"
| "walk es pre (c # cs) =
     (case entry_at es (pre @ [c]) of
        None \<Rightarrow> None
      | Some Dir \<Rightarrow> walk es (pre @ [c]) cs
      | Some (File t) \<Rightarrow> if cs = [] then Some (File t) else None)"

definition node_at :: "world \<Rightarrow> string list \<Rightarrow> node option" where
  "node_at w p = walk (entries w) [] p"

text \<open>
  \<open>os.makedirs(p, exist_ok=True)\<close>, for the components \<open>cs\<close> of \<open>p\<close> below the directory
  \<open>pre\<close>: a directory that exists is kept, a missing one is created, and the call
  raises at the first component that is a file or that the process may not create;
  what it has created by then stays.
\<close>

fun makedirs :: "host \<Rightarrow> string list \<Rightarrow> string list \<Rightarrow> (string list \<rightharpoonup> node)
    \<Rightarrow> (string list \<rightharpoonup> node) \<times> (exn + unit)" where
  "makedirs h pre [] es = (es, Inr ())"
| "makedirs h pre (c # cs) es =
     (case entry_at es (pre @ [c]) of
        Some Dir \<Rightarrow> makedirs h (pre @ [c]) cs es
      | Some (File t) \<Rightarrow> (es, Inl (if cs = [] then FileExistsError else NotADirectoryError))
      | None \<Rightarrow>
          if denied h (pre @ [c]) then (es, Inl PermissionError)
          else makedirs h (pre @ [c]) cs (es(pre @ [c] \<mapsto> Dir)))"

text \<open>
  \<open>open(p, 'w')\<close> followed by one \<open>write\<close> of the text \<open>t\<close> and the close of the file: the
  file is created or truncated, unless \<open>p\<close> is a directory, its parent is not a
  directory, or the process may not write there.
\<close>

definition write_text :: "host \<Rightarrow> string list \<Rightarrow> string \<Rightarrow> (string list \<rightharpoonup> node)
    \<Rightarrow> (string list \<rightharpoonup> node) \<times> (exn + unit)" where
  "write_text h p t es =
     (case walk es [] p of
        Some Dir \<Rightarrow> (es, Inl IsADirectoryError)
      | _ \<Rightarrow>
         (case walk es [] (butlast p) of
            None \<Rightarrow> (es, Inl FileNotFoundError)
          | Some (File u) \<Rightarrow> (es, Inl NotADirectoryError)
          | Some Dir \<Rightarrow>
              if denied h p then (es, Inl PermissionError)
              else (es(p \<mapsto> File t), Inr ())))"

subsection \<open>Subprocesses\<close>

text \<open>
  \<open>subprocess.check_output\<close> and \<open>subprocess.check_call\<close>: both raise what the launch
  raised, and \<open>CalledProcessError\<close> when the return code is not zero; \<open>check_output\<close>
  returns the bytes the command wrote to its standard output.
\<close>

definition check_output :: "host \<Rightarrow> string list \<Rightarrow> exn + string" where
  "check_output h argv =
     (case run h argv of
        Launch_failed e \<Rightarrow> Inl e
      | Exit rc out \<Rightarrow> if rc = 0 then Inr out else Inl (CalledProcessError rc argv))"

definition check_call :: "host \<Rightarrow> string list \<Rightarrow> exn + unit" where
  "check_call h argv =
     (case run h argv of
        Launch_failed e \<Rightarrow> Inl e
      | Exit rc out \<Rightarrow> if rc = 0 then Inr () else Inl (CalledProcessError rc argv))"

subsection \<open>\<open>initialize_project\<close>\<close>

definition empty_dirs :: "string list" where
  "empty_dirs =
     [''../backend/data/external'',
      ''../backend/data/interim'',
      ''../backend/data/processed'',
      ''../backend/artifacts'',
      ''../backend/notebooks'']"

definition gitkeep_text :: string where
  "gitkeep_text = ''# This file ensures the directory is tracked by git'' @ [CHR 0x0A]"

text \<open>The body of the \<open>for\<close> loop, and the loop; an exception ends the loop where it is.\<close>

definition provision_dir :: "host \<Rightarrow> string \<Rightarrow> (string list \<rightharpoonup> node)
    \<Rightarrow> (string list \<rightharpoonup> node) \<times> (exn + unit)" where
  "provision_dir h dir_path es =
     (let gitkeep_path = os_path_join h dir_path ''.gitkeep'' in
      case makedirs h [] (parts h (os_path_dirname h gitkeep_path)) es of
        (es1, Inl e) \<Rightarrow> (es1, Inl e)
      | (es1, Inr u) \<Rightarrow> write_text h (parts h gitkeep_path) gitkeep_text es1)"

fun provision :: "host \<Rightarrow> string list \<Rightarrow> (string list \<rightharpoonup> node)
    \<Rightarrow> (string list \<rightharpoonup> node) \<times> (exn + unit)" where
  "provision h [] es = (es, Inr ())"
| "provision h (dir_path # ds) es =
     (case provision_dir h dir_path es of
        (es1, Inl e) \<Rightarrow> (es1, Inl e)
      | (es1, Inr u) \<Rightarrow> provision h ds es1)"

text \<open>The line printed first, and the lines printed after the loop.\<close>

definition starting_line :: string where
  "starting_line =
     [CHR 0xF0, CHR 0x9F, CHR 0x9A, CHR 0x80]
     @ '' Initializing your multi-agent system project...''"

definition closing_lines :: "host \<Rightarrow> string list" where
  "closing_lines h =
     [[CHR 0xE2, CHR 0x9C, CHR 0x85] @ '' Project structure created successfully!'',
      [CHR 0xF0, CHR 0x9F, CHR 0x93, CHR 0x81] @ '' Your project is located at: '' @ getcwd h,
      [CHR 0x0A] @ ''Next steps:'',
      ''1. pip install -r requirements.txt'',
      ''2. Configure system_config.yaml'',
      ''3. Start developing your multi-agent system!'']"

definition initialize_project :: "host \<Rightarrow> world \<Rightarrow> world \<times> (exn + unit)" where
  "initialize_project h w =
     (let w0 = print starting_line w in
      case provision h empty_dirs (entries w0) of
        (es, Inl e) \<Rightarrow> (w0\<lparr>entries := es\<rparr>, Inl e)
      | (es, Inr u) \<Rightarrow> (fold print (closing_lines h) (w0\<lparr>entries := es\<rparr>), Inr ()))"

subsection \<open>\<open>show_welcome_banner\<close> and \<open>export_env_variables\<close>\<close>

definition banner :: string where
  "banner =
     [CHR 0x0A] @ ''    '' @ [CHR 0xE2, CHR 0x95, CHR 0x94]
       @ concat (replicate 50 [CHR 0xE2, CHR 0x95, CHR 0x90])
       @ [CHR 0xE2, CHR 0x95, CHR 0x97]
     @ [CHR 0x0A] @ ''    '' @ [CHR 0xE2, CHR 0x95, CHR 0x91] @ ''                  ''
       @ [CHR 0xF0, CHR 0x9F, CHR 0x9A, CHR 0x80] @ '' AGENTFORGE                   ''
       @ [CHR 0xE2, CHR 0x95, CHR 0x91]
     @ [CHR 0x0A] @ ''    '' @ [CHR 0xE2, CHR 0x95, CHR 0x91]
       @ ''           Multi-Agent System Template            ''
       @ [CHR 0xE2, CHR 0x95, CHR 0x91]
     @ [CHR 0x0A] @ ''    '' @ [CHR 0xE2, CHR 0x95, CHR 0x91]
       @ ''                                                  ''
       @ [CHR 0xE2, CHR 0x95, CHR 0x91] @ '' ''
     @ [CHR 0x0A] @ ''    '' @ [CHR 0xE2, CHR 0x95, CHR 0x91] @ ''           Crafted with ''
       @ [CHR 0xE2, CHR 0x9D, CHR 0xA4] @ [CHR 0xEF, CHR 0xB8, CHR 0x8F]
       @ '' by goldirana           '' @ [CHR 0xE2, CHR 0x95, CHR 0x91]
     @ [CHR 0x0A] @ ''    '' @ [CHR 0xE2, CHR 0x95, CHR 0x9A]
       @ concat (replicate 50 [CHR 0xE2, CHR 0x95, CHR 0x90])
       @ [CHR 0xE2, CHR 0x95, CHR 0x9D]
     @ [CHR 0x0A] @ ''    ''"

definition show_welcome_banner :: "world \<Rightarrow> world" where
  "show_welcome_banner w = print banner w"

text \<open>
  \<open>subprocess.run(command, shell=True, check=True, executable='/bin/bash')\<close> starts a
  child process with a copy of the environment of the hook's process; \<open>shell h\<close> gives
  the environment the child ends with and how it ends. The child's environment ends
  with the child.
\<close>

definition export_env_variables :: "host \<Rightarrow> world \<Rightarrow> world \<times> (exn + unit)" where
  "export_env_variables h w =
     (if node_at w (parts h ''.env'') \<noteq> None then
        (let w1 = print ([CHR 0xF0, CHR 0x9F, CHR 0x94, CHR 0x84]
                         @ '' Exporting environment variables from .env file...'') w;
             command = ''set -a && source .env && set +a'';
             w2 = w1\<lparr>spawned := spawned w1 @ [[''/bin/bash'', ''-c'', command]]\<rparr>
         in case snd (shell h command (environ w2)) of
              Launch_failed e \<Rightarrow> (w2, Inl e)
            | Exit rc out \<Rightarrow>
                if rc \<noteq> 0 then (w2, Inl (CalledProcessError rc [command]))
                else (print ([CHR 0xE2, CHR 0x9C, CHR 0x85]
                             @ '' Environment variables exported successfully!'') w2,
                      Inr ()))
      else
        (print ([CHR 0xE2, CHR 0x9A, CHR 0xA0] @ [CHR 0xEF, CHR 0xB8, CHR 0x8F]
                @ '' .env file not found. Please create one to set environment variables.'') w,
         Inr ()))"

subsection \<open>\<open>pick_python_interpreter\<close>\<close>

definition version_script :: string where
  "version_script =
     ''import sys; print(f'' @ [CHR 0x27]
     @ ''{sys.version_info.major}.{sys.version_info.minor}'' @ [CHR 0x27] @ '')''"

text \<open>
  The loop over the candidates. \<open>if not exe\<close> skips a candidate that \<open>which\<close> does not
  find (or finds under an empty path); \<open>except Exception: pass\<close> goes on to the next
  candidate after any exception of the invocation or of \<open>decode\<close>. After the loop the
  function returns \<open>sys.executable\<close>.
\<close>

fun probe :: "host \<Rightarrow> string \<Rightarrow> string list \<Rightarrow> world \<Rightarrow> world \<times> string option" where
  "probe h target_py [] w = (w, sys_executable h)"
| "probe h target_py (cand # cands) w =
     (case which h cand of
        None \<Rightarrow> probe h target_py cands w
      | Some exe \<Rightarrow>
          if exe = [] then probe h target_py cands w
          else
            (let argv = [exe, ''-c'', version_script];
                 w1 = w\<lparr>spawned := spawned w @ [argv]\<rparr>
             in case check_output h argv of
                  Inl e \<Rightarrow> probe h target_py cands w1
                | Inr out \<Rightarrow>
                    (case decode out of
                       Inl e \<Rightarrow> probe h target_py cands w1
                     | Inr ver \<Rightarrow>
                         if strip ver = target_py then (w1, Some exe)
                         else probe h target_py cands w1)))"

definition candidates :: "string \<Rightarrow> string list" where
  "candidates target_py = [''python'' @ target_py, ''python3'', ''python'']"

definition pick_python_interpreter :: "host \<Rightarrow> string \<Rightarrow> world \<Rightarrow> world \<times> string option" where
  "pick_python_interpreter h target_py w = probe h target_py (candidates target_py) w"

subsection \<open>\<open>create_venv\<close> and \<open>print_activation_help\<close>\<close>

text \<open>
  \<open>create_venv\<close> returns the path of the environment, or \<open>None\<close> after a
  \<open>CalledProcessError\<close>, which is the only exception it catches.
\<close>

definition venv_error_line :: "host \<Rightarrow> string \<Rightarrow> exn \<Rightarrow> string" where
  "venv_error_line h python_exe e =
     ''[cookiecutter] ERROR: Failed to create venv with '' @ python_exe @ '': '' @ str_exc h e"

definition create_venv :: "host \<Rightarrow> string \<Rightarrow> string \<Rightarrow> world \<Rightarrow> world \<times> (exn + string option)" where
  "create_venv h python_exe venv_name w =
     (case expanduser h venv_name of
        Inl e \<Rightarrow> (w, Inl e)
      | Inr expanded \<Rightarrow>
          (case resolve h expanded of
             Inl e \<Rightarrow> (w, Inl e)
           | Inr venv_path \<Rightarrow>
               (let argv = [python_exe, ''-m'', ''venv'', venv_path];
                    w1 = w\<lparr>spawned := spawned w @ [argv]\<rparr>
                in case check_call h argv of
                     Inr u \<Rightarrow> (w1, Inr (Some venv_path))
                   | Inl (CalledProcessError rc cmd) \<Rightarrow>
                       (print (venv_error_line h python_exe (CalledProcessError rc cmd)) w1,
                        Inr None)
                   | Inl e \<Rightarrow> (w1, Inl e))))"

definition activation_lines :: "host \<Rightarrow> string \<Rightarrow> string list" where
  "activation_lines h venv_path =
     (let bin = (if os_name h = ''nt'' then ''Scripts'' else ''bin'');
          activate = joinpath h (joinpath h venv_path bin) ''activate'';
          pip = joinpath h (joinpath h venv_path bin) ''pip'';
          python = joinpath h (joinpath h venv_path bin) ''python''
      in [[CHR 0x0A] @ ''[cookiecutter] Virtual environment created.'',
          (if os_name h \<noteq> ''nt'' then ''Activate:'' @ [CHR 0x0A] @ ''  source '' @ activate
           else ''  '' @ activate),
          ''Pip:      '' @ pip,
          ''Python:   '' @ python @ [CHR 0x0A]])"

definition print_activation_help :: "host \<Rightarrow> string \<Rightarrow> world \<Rightarrow> world" where
  "print_activation_help h venv_path w = fold print (activation_lines h venv_path) w"

subsection \<open>The main flow\<close>

text \<open>
  The template context, and how a run ends: it completes (exit status 0), it leaves
  through \<open>sys.exit\<close>, or an exception that nothing catches ends it.
\<close>

record ctx =
  python_version :: string
  create_virtualenv :: string
  venv_name :: string
  project_slug :: string

datatype outcome = Completed | SystemExit int | Raised exn

definition no_interpreter_warning :: string where
  "no_interpreter_warning =
     ''[cookiecutter] WARNING: Could not find a Python interpreter; skipping venv creation.''"

definition venv_failed_warning :: string where
  "venv_failed_warning =
     ''[cookiecutter] WARNING: venv creation failed; please set it up manually.''"

text \<open>\<open>falsy py\<close> is Python's \<open>not py\<close> for a value that is \<open>None\<close> or a string.\<close>

definition falsy :: "string option \<Rightarrow> bool" where
  "falsy py = (py = None \<or> py = Some [])"

definition main :: "host \<Rightarrow> ctx \<Rightarrow> world \<Rightarrow> world \<times> outcome" where
  "main h c w =
     (case initialize_project h w of
        (w1, Inl e) \<Rightarrow> (w1, Raised e)
      | (w1, Inr u) \<Rightarrow>
          if lower (create_virtualenv c) = ''y'' then
            (case pick_python_interpreter h (python_version c) w1 of
               (w2, py) \<Rightarrow>
                 if falsy py then
                   (print no_interpreter_warning w2, SystemExit 0)
                 else
                   (case create_venv h (the py) (venv_name c) w2 of
                      (w3, Inl e) \<Rightarrow> (w3, Raised e)
                    | (w3, Inr (Some venv_path)) \<Rightarrow>
                        (show_welcome_banner (print_activation_help h venv_path w3), Completed)
                    | (w3, Inr None) \<Rightarrow>
                        (show_welcome_banner (print venv_failed_warning w3), Completed)))
          else (show_welcome_banner w1, Completed))"

section \<open>Notions for stating the properties\<close>

subsection \<open>Interpreter discovery\<close>

text \<open>
  \<open>on_path h cand\<close>: \<open>which\<close> finds the candidate. \<open>reports h target_py cand\<close>: the
  candidate is found, runs the version script with return code 0, and the text it
  prints, decoded and stripped, is the requested version. \<open>upto_first P xs\<close> is \<open>xs\<close> up
  to and including its first element that satisfies \<open>P\<close>. \<open>chosen\<close> is the executable of
  the first candidate that reports the requested version, or \<open>sys.executable\<close>;
  \<open>probes\<close> are the commands started on the way.
\<close>

definition on_path :: "host \<Rightarrow> string \<Rightarrow> bool" where
  "on_path h cand = (case which h cand of None \<Rightarrow> False | Some exe \<Rightarrow> exe \<noteq> [])"

definition reports :: "host \<Rightarrow> string \<Rightarrow> string \<Rightarrow> bool" where
  "reports h target_py cand =
     (case which h cand of
        None \<Rightarrow> False
      | Some exe \<Rightarrow>
          exe \<noteq> [] \<and>
          (case run h [exe, ''-c'', version_script] of
             Launch_failed e \<Rightarrow> False
           | Exit rc out \<Rightarrow>
               rc = 0 \<and> (case decode out of Inl e \<Rightarrow> False | Inr ver \<Rightarrow> strip ver = target_py)))"

fun upto_first :: "('a \<Rightarrow> bool) \<Rightarrow> 'a list \<Rightarrow> 'a list" where
  "upto_first P [] = []"
| "upto_first P (x # xs) = (if P x then [x] else x # upto_first P xs)"

definition chosen :: "host \<Rightarrow> string \<Rightarrow> string option" where
  "chosen h target_py =
     (case find (reports h target_py) (candidates target_py) of
        Some cand \<Rightarrow> which h cand
      | None \<Rightarrow> sys_executable h)"

definition probes :: "host \<Rightarrow> string \<Rightarrow> string list list" where
  "probes h target_py =
     map (\<lambda>cand. [the (which h cand), ''-c'', version_script])
       (upto_first (reports h target_py) (filter (on_path h) (candidates target_py)))"

subsection \<open>Directory provisioning\<close>

text \<open>
  \<open>provisioned h es d\<close>: in the file system \<open>es\<close> the directory \<open>d\<close> exists and holds the
  placeholder file with its text, at a path the process may write.
  \<open>plain_dir h d\<close>: the placeholder path of the directory text \<open>d\<close> has the components
  of \<open>d\<close> followed by \<open>.gitkeep\<close>, and its \<open>dirname\<close> has the components of \<open>d\<close>.
\<close>

definition provisioned :: "host \<Rightarrow> (string list \<rightharpoonup> node) \<Rightarrow> string list \<Rightarrow> bool" where
  "provisioned h es d =
     (walk es [] d = Some Dir \<and> es (d @ [''.gitkeep'']) = Some (File gitkeep_text)
      \<and> \<not> denied h (d @ [''.gitkeep'']))"

definition plain_dir :: "host \<Rightarrow> string \<Rightarrow> bool" where
  "plain_dir h d =
     (parts h (os_path_dirname h (os_path_join h d ''.gitkeep'')) = parts h d
      \<and> parts h (os_path_join h d ''.gitkeep'') = parts h d @ [''.gitkeep''])"

subsection \<open>What a run prints and starts\<close>

text \<open>
  \<open>printed_by w w'\<close> and \<open>started_by w w'\<close>: the texts printed and the commands started
  between the states \<open>w\<close> and \<open>w'\<close>. \<open>guidance_line\<close> is the first line of the activation
  guidance. \<open>venv_created h w w'\<close>: between \<open>w\<close> and \<open>w'\<close> a \<open>-m venv\<close> command was
  started, and it ended with return code 0.
\<close>

definition printed_by :: "world \<Rightarrow> world \<Rightarrow> string list" where
  "printed_by w w' = drop (length (stdout w)) (stdout w')"

definition started_by :: "world \<Rightarrow> world \<Rightarrow> string list list" where
  "started_by w w' = drop (length (spawned w)) (spawned w')"

definition guidance_line :: string where
  "guidance_line = [CHR 0x0A] @ ''[cookiecutter] Virtual environment created.''"

definition venv_created :: "host \<Rightarrow> world \<Rightarrow> world \<Rightarrow> bool" where
  "venv_created h w w' =
     (\<exists>py p out. [py, ''-m'', ''venv'', p] \<in> set (started_by w w')
                 \<and> run h [py, ''-m'', ''venv'', p] = Exit 0 out)"

text \<open>
  The observable behaviour of the main flow in closed form: the texts printed, the
  commands started and the outcome, first of the environment creation with its
  guidance and the banner, then of the whole run. \<open>main_behaviour\<close> below proves that
  \<open>main\<close> behaves so.
\<close>

definition venv_behaviour :: "host \<Rightarrow> string \<Rightarrow> string \<Rightarrow> string list \<times> string list list \<times> outcome" where
  "venv_behaviour h py n =
     (case expanduser h n of
        Inl e \<Rightarrow> ([], [], Raised e)
      | Inr x \<Rightarrow>
         (case resolve h x of
            Inl e \<Rightarrow> ([], [], Raised e)
          | Inr p \<Rightarrow>
             (case check_call h [py, ''-m'', ''venv'', p] of
                Inr u \<Rightarrow> (activation_lines h p @ [banner], [[py, ''-m'', ''venv'', p]], Completed)
              | Inl e \<Rightarrow>
                 (case e of
                    CalledProcessError rc cmd \<Rightarrow>
                      ([venv_error_line h py e, venv_failed_warning, banner],
                       [[py, ''-m'', ''venv'', p]], Completed)
                  | _ \<Rightarrow> ([], [[py, ''-m'', ''venv'', p]], Raised e)))))"

definition behaviour :: "host \<Rightarrow> ctx \<Rightarrow> world \<Rightarrow> string list \<times> string list list \<times> outcome" where
  "behaviour h c w =
     (case snd (initialize_project h w) of
        Inl e \<Rightarrow> ([starting_line], [], Raised e)
      | Inr u \<Rightarrow>
          if lower (create_virtualenv c) \<noteq> ''y''
          then (starting_line # closing_lines h @ [banner], [], Completed)
          else if falsy (chosen h (python_version c))
          then (starting_line # closing_lines h @ [no_interpreter_warning],
                probes h (python_version c), SystemExit 0)
          else (case venv_behaviour h (the (chosen h (python_version c))) (venv_name c) of
                  (ls, ps, out) \<Rightarrow>
                    (starting_line # closing_lines h @ ls, probes h (python_version c) @ ps, out)))"

section \<open>Example hosts and states\<close>

text \<open>
  A POSIX host on which \<open>python3\<close> is on the search path and reports version 3.11, and
  every other command (so \<open>-m venv\<close>) ends with return code 1; the same host with
  every other command ending with return code 0; and the same host with no
  interpreter on the search path and no \<open>sys.executable\<close>. A state with an empty file
  system, one in which \<open>../backend\<close> is a file, and one with a \<open>.env\<close> file in the
  working directory.
\<close>

definition demo_host :: host where
  "demo_host =
     \<lparr>os_name = ''posix'', getcwd = ''/work/agentforge/hooks'', denied = (\<lambda>p. False),
      which = (\<lambda>cmd. if cmd = ''python3'' then Some ''/usr/bin/python3'' else None),
      sys_executable = Some ''/usr/bin/python3'',
      expanduser = (\<lambda>p. Inr p),
      resolve = (\<lambda>p. Inr (''/work/agentforge/hooks/'' @ p)),
      run = (\<lambda>argv. if argv = [''/usr/bin/python3'', ''-c'', version_script]
                       then Exit 0 (''3.11'' @ [CHR 0x0A]) else Exit 1 []),
      shell = (\<lambda>command env. (env(''API_KEY'' \<mapsto> ''secret''), Exit 0 [])),
      str_exc = (\<lambda>e. ''Command returned non-zero exit status 1.'')\<rparr>"

definition ready_host :: host where
  "ready_host = demo_host\<lparr>run := (\<lambda>argv. if argv = [''/usr/bin/python3'', ''-c'', version_script]
                                        then Exit 0 (''3.11'' @ [CHR 0x0A]) else Exit 0 [])\<rparr>"

definition lost_host :: host where
  "lost_host = demo_host\<lparr>which := (\<lambda>cmd. None), sys_executable := None\<rparr>"

definition fresh_world :: world where
  "fresh_world = \<lparr>entries = Map.empty, stdout = [], spawned = [], environ = Map.empty\<rparr>"

definition blocked_world :: world where
  "blocked_world = fresh_world\<lparr>entries := [[''..'', ''backend''] \<mapsto> File []]\<rparr>"

definition dotenv_world :: world where
  "dotenv_world = fresh_world\<lparr>entries := [[''.env''] \<mapsto> File (''API_KEY=secret'' @ [CHR 0x0A])]\<rparr>"

definition demo_ctx :: ctx where
  "demo_ctx = \<lparr>python_version = ''3.11'', create_virtualenv = ''y'', venv_name = ''venv'',
               project_slug = ''agentforge''\<rparr>"

section \<open>Literals\<close>

lemma lit_simps [simp]:
  "lit [] = []" "lit (c # cs) = of_char c # lit cs" "lit (a @ b) = lit a @ lit b"
  by (simp_all add: lit_def)

lemma lit_length [simp]: "length (lit s) = length s"
  by (simp add: lit_def)

section \<open>Properties of the route handlers\<close>

text \<open>
  Claim C10. \<open>start_agent\<close> returns the payload with the message
  \<open>Agent <agent_name> started\<close> and the status \<open>success\<close> for every agent name: the
  dict has exactly these two items, whatever the name is, so no name yields another
  status. The name \<open>ghost_agent\<close>, which \<open>list_agents\<close> does not return, is such a name.
\<close>

theorem start_agent_always_success:
  "start_agent agent_name =
     [(lit ''message'', JStr (lit ''Agent '' @ agent_name @ lit '' started'')),
      (lit ''status'', JStr (lit ''success''))]
   \<and> map_of (start_agent agent_name) (lit ''status'') = Some (JStr (lit ''success''))
   \<and> map_of (start_agent agent_name) (lit ''message'')
       = Some (JStr (lit ''Agent '' @ agent_name @ lit '' started''))
   \<and> \<not> listed_agent (lit ''ghost_agent'')
   \<and> map_of (start_agent (lit ''ghost_agent'')) (lit ''status'') = Some (JStr (lit ''success''))"
  by (simp add: start_agent_def listed_agent_def list_agents_def)

section \<open>Properties of the pre-generation hook\<close>

subsection \<open>What \<open>PY_VER_RE\<close> matches\<close>

lemma is_decimal_iff: "is_decimal c \<longleftrightarrow> decimal_digit c"
proof -
  have "(z \<le> c \<and> c < z + 10) \<longleftrightarrow> (\<exists>d < 10. c = z + d)" for z
    by (metis add.commute add_diff_cancel_left' le_add1 le_add_diff_inverse
        nat_add_left_cancel_less)
  then show ?thesis by (simp add: is_decimal_def decimal_digit_def list_ex_iff)
qed

lemma rx_from_Plus:
  "rx_from (Plus k # p) pos s \<longleftrightarrow>
     (\<exists>n. 1 \<le> n \<and> n \<le> length (takeWhile (cls_match k) s) \<and> rx_from p (pos + n) (drop n s))"
  by (auto simp: list_ex_iff)

lemma take_within_run:
  assumes "n \<le> length (takeWhile P s)"
  shows "list_all P (take n s)"
proof -
  have "take n (takeWhile P s @ dropWhile P s) = take n (takeWhile P s)"
    using assms by (simp only: take_append) simp
  then have "take n s = take n (takeWhile P s)" by simp
  then have "set (take n s) \<subseteq> set (takeWhile P s)" by (simp add: set_take_subset)
  then show ?thesis by (auto simp: list_all_iff dest: set_takeWhileD)
qed

lemma run_then_stop:
  assumes "list_all P a" and "t = [] \<or> \<not> P (hd t)"
  shows "takeWhile P (a @ t) = a"
  using assms by (cases t) (auto simp: list_all_iff takeWhile_append)

lemma not_decimal: "\<not> is_decimal 0x2E" "\<not> is_decimal 0x0A"
  by (simp_all add: is_decimal_def decimal_zeros_def)

lemma PY_VER_RE_sound:
  assumes "re_match PY_VER_RE s"
  shows "version_text s"
proof -
  from assms obtain n where n: "1 \<le> n" "n \<le> length (takeWhile (cls_match Digit) s)"
    and r1: "rx_from [Escaped 0x2E, Plus Digit, Dollar] n (drop n s)"
    unfolding re_match_def PY_VER_RE_def by (auto simp: rx_from_Plus simp del: rx_from.simps(5))
  from r1 obtain rest where rest: "drop n s = 0x2E # rest"
    and r2: "rx_from [Plus Digit, Dollar] (Suc n) rest"
    by (auto split: list.splits)
  from r2 obtain m where m: "1 \<le> m" "m \<le> length (takeWhile (cls_match Digit) rest)"
    and r3: "drop m rest = [] \<or> drop m rest = [0x0A]"
    by (auto simp: rx_from_Plus simp del: rx_from.simps(5))
  let ?a = "take n s" and ?b = "take m rest"
  have a: "list_all (cls_match Digit) ?a" using n(2) by (rule take_within_run)
  have b: "list_all (cls_match Digit) ?b" using m(2) by (rule take_within_run)
  have a': "list_all decimal_digit ?a" and b': "list_all decimal_digit ?b"
    using a b by (simp_all add: list_all_iff is_decimal_iff)
  have "?a \<noteq> []" using n by auto
  moreover have "?b \<noteq> []" using m by auto
  moreover have "s = ?a @ lit ''.'' @ ?b @ drop m rest"
    using rest by (simp, metis append_Cons append_Nil append_take_drop_id)
  ultimately show ?thesis using a' b' r3 unfolding version_text_def by (metis append_Nil2)
qed

lemma PY_VER_RE_complete:
  assumes "version_text s"
  shows "re_match PY_VER_RE s"
proof -
  from assms obtain a b t where ab: "a \<noteq> []" "b \<noteq> []"
    "list_all decimal_digit a" "list_all decimal_digit b"
    and t: "t = [] \<or> t = [0x0A]" and s: "s = a @ 0x2E # b @ t"
    unfolding version_text_def by auto
  have da: "list_all (cls_match Digit) a" and db: "list_all (cls_match Digit) b"
    using ab(3,4) by (simp_all add: list_all_iff is_decimal_iff)
  have ta: "takeWhile (cls_match Digit) s = a"
    unfolding s using da not_decimal(1) by (intro run_then_stop) auto
  have tb: "takeWhile (cls_match Digit) (b @ t) = b"
    using db t not_decimal(2) by (intro run_then_stop) auto
  have "rx_from [Plus Digit, Dollar] (Suc (length a)) (b @ t)"
    unfolding rx_from_Plus using ab(2) t tb
    by (intro exI[of _ "length b"]) (auto simp: Suc_le_eq)
  then have "rx_from [Escaped 0x2E, Plus Digit, Dollar] (length a) (drop (length a) s)"
    unfolding s by (simp del: rx_from.simps(5))
  then have "rx_from [Plus Digit, Escaped 0x2E, Plus Digit, Dollar] 0 s"
    unfolding rx_from_Plus[of _ "[Escaped 0x2E, Plus Digit, Dollar]"] using ab(1) ta
    by (intro exI[of _ "length a"]) (auto simp: Suc_le_eq)
  then show ?thesis by (simp add: re_match_def PY_VER_RE_def del: rx_from.simps(5))
qed

lemma PY_VER_RE_language: "re_match PY_VER_RE s \<longleftrightarrow> version_text s"
  using PY_VER_RE_sound PY_VER_RE_complete by blast

subsection \<open>Acceptance and rejection\<close>


subsection \<open>The version warning\<close>

text \<open>
  Claim C8. For every version string that passes the pattern check and differs from the
  running interpreter's \<open>major.minor\<close> text, the hook writes the warning to the error
  stream, once, and ends normally (\<open>Inr\<close>): the mismatch does not abort generation. The
  warning names both versions. Under Python 3.12 the request \<open>3.11\<close> gives the warning
  and the request \<open>3.12\<close> gives none.
\<close>

theorem version_mismatch_only_warns:
  assumes "re_match PY_VER_RE v" and "cur_ver version_info \<noteq> v"
  shows "pre_gen_project version_info v =
           Inr [lit ''[cookiecutter] WARNING: Your current Python is '' @ cur_ver version_info
                @ lit '', but cookiecutter.python_version is '' @ v @ lit ''.'' @ [0x0A]
                @ lit ''We'' @ [0x27]
                @ lit ''ll still generate the project; the post-gen hook can create a venv.''
                @ [0x0A]]
         \<and> pre_gen_project (3, 12) (lit ''3.11'') =
           Inr [lit ''[cookiecutter] WARNING: Your current Python is 3.12, ''
                @ lit ''but cookiecutter.python_version is 3.11.'' @ [0x0A]
                @ lit ''We'' @ [0x27]
                @ lit ''ll still generate the project; the post-gen hook can create a venv.''
                @ [0x0A]]
         \<and> pre_gen_project (3, 12) (lit ''3.12'') = Inr []"
proof -
  have "pre_gen_project version_info v = Inr [version_warning (cur_ver version_info) v]"
    using assms by (simp add: pre_gen_project_def)
  moreover have "re_match PY_VER_RE (lit ''3.11'')" "re_match PY_VER_RE (lit ''3.12'')"
    by (simp_all add: re_match_def PY_VER_RE_def is_decimal_def decimal_zeros_def)
  moreover have "cur_ver (3, 12) = lit ''3.12''" by (simp add: cur_ver_def)
  ultimately show ?thesis
    by (simp add: pre_gen_project_def version_warning_def)
qed

theorem version_mismatch_only_warns_witness:
  "re_match PY_VER_RE (lit ''10.0'') \<and> cur_ver (3, 9) \<noteq> lit ''10.0''
   \<and> pre_gen_project (3, 9) (lit ''10.0'') =
       Inr [lit ''[cookiecutter] WARNING: Your current Python is 3.9, ''
            @ lit ''but cookiecutter.python_version is 10.0.'' @ [0x0A]
            @ lit ''We'' @ [0x27]
            @ lit ''ll still generate the project; the post-gen hook can create a venv.''
            @ [0x0A]]"
proof -
  have m: "re_match PY_VER_RE (lit ''10.0'')"
    by (simp add: re_match_def PY_VER_RE_def is_decimal_def decimal_zeros_def)
  have d: "cur_ver (3, 9) \<noteq> lit ''10.0''" by (simp add: cur_ver_def)
  have c: "cur_ver (3, 9) = lit ''3.9''" by (simp add: cur_ver_def)
  show ?thesis using m d version_mismatch_only_warns [OF m d, THEN conjunct1] by (simp add: c)
qed

section \<open>Properties of the post-generation hook\<close>

subsection \<open>Printing leaves the rest of the state alone\<close>

lemma entries_print [simp]: "entries (print s w) = entries w"
  by (simp add: print_def)

lemma entries_fold_print [simp]: "entries (fold print xs w) = entries w"
  by (induction xs arbitrary: w) simp_all

lemma print_fields [simp]:
  "stdout (print s w) = stdout w @ [s]" "spawned (print s w) = spawned w"
  "environ (print s w) = environ w"
  by (simp_all add: print_def)

lemma fold_print_fields [simp]:
  "stdout (fold print xs w) = stdout w @ xs" "spawned (fold print xs w) = spawned w"
  "environ (fold print xs w) = environ w"
  by (induction xs arbitrary: w) simp_all

subsection \<open>Interpreter discovery\<close>

text \<open>One round of the loop, by what the candidate does.\<close>

lemma probe_Cons:
  "probe h t (c # cs) w =
     (if reports h t c then (w\<lparr>spawned := spawned w @ [[the (which h c), ''-c'', version_script]]\<rparr>, which h c)
      else if on_path h c
        then probe h t cs (w\<lparr>spawned := spawned w @ [[the (which h c), ''-c'', version_script]]\<rparr>)
      else probe h t cs w)"
proof (cases "which h c")
  case None
  then show ?thesis by (simp add: reports_def on_path_def)
next
  case (Some exe)
  show ?thesis
  proof (cases "run h [exe, ''-c'', version_script]")
    case (Launch_failed e)
    with Some show ?thesis by (simp add: reports_def on_path_def check_output_def)
  next
    case (Exit rc out)
    with Some show ?thesis
      by (cases "decode out"; cases "rc = 0")
         (simp_all add: reports_def on_path_def check_output_def Let_def)
  qed
qed

lemma probe_result:
  "snd (probe h t cs w) =
     (case find (reports h t) cs of Some c \<Rightarrow> which h c | None \<Rightarrow> sys_executable h)"
  by (induction cs arbitrary: w) (simp_all add: probe_Cons del: probe.simps(2))

lemma reports_on_path: "reports h t c \<Longrightarrow> on_path h c"
  by (auto simp: reports_def on_path_def split: option.splits)

lemma probe_spawned:
  "spawned (fst (probe h t cs w)) =
     spawned w @ map (\<lambda>c. [the (which h c), ''-c'', version_script])
                   (upto_first (reports h t) (filter (on_path h) cs))"
  by (induction cs arbitrary: w) (simp_all add: probe_Cons reports_on_path del: probe.simps(2))

lemma probe_frame:
  "entries (fst (probe h t cs w)) = entries w \<and> stdout (fst (probe h t cs w)) = stdout w
   \<and> environ (fst (probe h t cs w)) = environ w"
  by (induction cs arbitrary: w) (simp_all add: probe_Cons del: probe.simps(2))


subsection \<open>The file system under \<open>makedirs\<close> and \<open>write_text\<close>\<close>

lemma entry_at_None: "entry_at es p = None \<Longrightarrow> es p = None"
  by (simp add: entry_at_def split: if_splits)

lemma entry_at_map_le: "es \<subseteq>\<^sub>m es' \<Longrightarrow> entry_at es p = Some n \<Longrightarrow> entry_at es' p = Some n"
  by (auto simp: entry_at_def map_le_def dom_def split: if_splits)

lemma entry_at_upd: "p \<noteq> g \<Longrightarrow> entry_at (es(g \<mapsto> v)) p = entry_at es p"
  by (simp add: entry_at_def)

lemma entry_at_gitkeep: "entry_at es (d @ [''.gitkeep'']) = es (d @ [''.gitkeep''])"
  by (simp add: entry_at_def)

text \<open>\<open>makedirs\<close> only adds entries, and what could be resolved before still can.\<close>

lemma walk_map_le:
  "es \<subseteq>\<^sub>m es' \<Longrightarrow> walk es pre q = Some n \<Longrightarrow> walk es' pre q = Some n"
proof (induction q arbitrary: pre)
  case Nil
  then show ?case by simp
next
  case (Cons c cs)
  from Cons.prems(2) obtain m where m: "entry_at es (pre @ [c]) = Some m"
    by (auto split: option.splits)
  then have m': "entry_at es' (pre @ [c]) = Some m"
    using Cons.prems(1) by (rule entry_at_map_le[rotated])
  show ?case
  proof (cases m)
    case Dir
    with m m' Cons show ?thesis by simp
  next
    case (File t)
    with m m' Cons.prems(2) show ?thesis by (simp split: if_splits)
  qed
qed

lemma makedirs_map_le: "makedirs h pre cs es = (es', r) \<Longrightarrow> es \<subseteq>\<^sub>m es'"
proof (induction cs arbitrary: pre es)
  case Nil
  then show ?case by simp
next
  case (Cons c cs)
  show ?case
  proof (cases "entry_at es (pre @ [c])")
    case None
    then have "es \<subseteq>\<^sub>m es(pre @ [c] \<mapsto> Dir)"
      by (auto simp: map_le_def dest: entry_at_None)
    with None Cons show ?thesis
      by (auto split: if_splits intro: map_le_trans)
  next
    case (Some m)
    with Cons show ?thesis by (cases m) (auto split: if_splits)
  qed
qed

lemma makedirs_dir: "makedirs h pre cs es = (es', Inr ()) \<Longrightarrow> walk es' pre cs = Some Dir"
proof (induction cs arbitrary: pre es)
  case Nil
  then show ?case by simp
next
  case (Cons c cs)
  show ?case
  proof (cases "entry_at es (pre @ [c])")
    case None
    with Cons.prems have nd: "\<not> denied h (pre @ [c])"
      and rec: "makedirs h (pre @ [c]) cs (es(pre @ [c] \<mapsto> Dir)) = (es', Inr ())"
      by (auto split: if_splits)
    have "entry_at (es(pre @ [c] \<mapsto> Dir)) (pre @ [c]) = Some Dir"
      using None by (simp add: entry_at_def split: if_splits)
    then have "entry_at es' (pre @ [c]) = Some Dir"
      using makedirs_map_le[OF rec] entry_at_map_le by blast
    with Cons.IH[OF rec] show ?thesis by simp
  next
    case (Some m)
    show ?thesis
    proof (cases m)
      case Dir
      with Some Cons.prems have rec: "makedirs h (pre @ [c]) cs es = (es', Inr ())" by simp
      have "entry_at es' (pre @ [c]) = Some Dir"
        using makedirs_map_le[OF rec] entry_at_map_le Some Dir by blast
      with Cons.IH[OF rec] show ?thesis by simp
    next
      case (File t)
      with Some Cons.prems show ?thesis by simp
    qed
  qed
qed

lemma makedirs_existing: "walk es pre cs = Some Dir \<Longrightarrow> makedirs h pre cs es = (es, Inr ())"
  by (induction cs arbitrary: pre) (auto split: option.splits node.splits if_splits)

lemma walk_append:
  "walk es pre (q1 @ q2) =
     (case walk es pre q1 of
        None \<Rightarrow> None
      | Some Dir \<Rightarrow> walk es (pre @ q1) q2
      | Some (File t) \<Rightarrow> if q2 = [] then Some (File t) else None)"
  by (induction q1 arbitrary: pre) (auto split: option.splits node.splits)

lemma walk_upd_other:
  "(\<And>q1 q2. q = q1 @ q2 \<Longrightarrow> q1 \<noteq> [] \<Longrightarrow> g \<noteq> pre @ q1)
     \<Longrightarrow> walk (es(g \<mapsto> v)) pre q = walk es pre q"
proof (induction q arbitrary: pre)
  case Nil
  then show ?case by simp
next
  case (Cons c cs)
  have "g \<noteq> pre @ [c]" using Cons.prems[of "[c]" cs] by simp
  then have e: "entry_at (es(g \<mapsto> v)) (pre @ [c]) = entry_at es (pre @ [c])"
    by (simp add: entry_at_upd)
  have "walk (es(g \<mapsto> v)) (pre @ [c]) cs = walk es (pre @ [c]) cs"
  proof (rule Cons.IH)
    fix q1 q2 assume "cs = q1 @ q2" "q1 \<noteq> []"
    then show "g \<noteq> (pre @ [c]) @ q1" using Cons.prems[of "c # q1" q2] by simp
  qed
  with e show ?case by (simp del: fun_upd_apply split: option.split node.split)
qed

lemma walk_dir_after_write:
  assumes "walk es [] d = Some Dir" and "walk es [] g \<noteq> Some Dir"
  shows "walk (es(g \<mapsto> v)) [] d = Some Dir"
proof -
  have "walk (es(g \<mapsto> v)) [] d = walk es [] d"
  proof (rule walk_upd_other)
    fix q1 q2 assume d: "d = q1 @ q2" and "q1 \<noteq> []"
    from assms(1) have "walk es [] q1 = Some Dir"
      unfolding d walk_append by (auto split: option.splits node.splits if_splits)
    with assms(2) show "g \<noteq> [] @ q1" by auto
  qed
  with assms(1) show ?thesis by simp
qed

lemma write_text_ok:
  assumes "write_text h g t es = (es', Inr ())"
  shows "es' = es(g \<mapsto> File t)" and "walk es [] g \<noteq> Some Dir" and "\<not> denied h g"
  using assms by (auto simp: write_text_def split: option.splits node.splits if_splits)

lemma walk_gitkeep:
  "walk es [] (d @ [''.gitkeep'']) =
     (case walk es [] d of Some Dir \<Rightarrow> es (d @ [''.gitkeep'']) | _ \<Rightarrow> None)"
  by (auto simp: walk_append entry_at_gitkeep split: option.splits node.splits)

subsection \<open>Directory provisioning\<close>

text \<open>
  One round of the loop provisions its directory and keeps what was provisioned; on a
  provisioned directory it changes nothing.
\<close>

lemma provision_dir_step:
  assumes good: "plain_dir h d" and run: "provision_dir h d es = (es', Inr ())"
  shows "provisioned h es' (parts h d)"
    and "provisioned h es d0 \<Longrightarrow> provisioned h es' d0"
proof -
  let ?D = "parts h d" and ?g = "parts h d @ [''.gitkeep'']"
  from run good obtain es1 where mk: "makedirs h [] ?D es = (es1, Inr ())"
    and wr: "write_text h ?g gitkeep_text es1 = (es', Inr ())"
    by (auto simp: provision_dir_def plain_dir_def Let_def split: prod.splits sum.splits)
  note w = write_text_ok[OF wr]
  have le: "es \<subseteq>\<^sub>m es1" using mk by (rule makedirs_map_le)
  have "walk es1 [] ?D = Some Dir" using mk by (rule makedirs_dir)
  then have "walk es' [] ?D = Some Dir" unfolding w(1) using w(2) by (rule walk_dir_after_write)
  then show "provisioned h es' ?D" using w by (simp add: provisioned_def)
  assume d0: "provisioned h es d0"
  then have "walk es1 [] d0 = Some Dir" using le walk_map_le by (auto simp: provisioned_def)
  then have a: "walk es' [] d0 = Some Dir" unfolding w(1) using w(2) by (rule walk_dir_after_write)
  have "es1 (d0 @ [''.gitkeep'']) = Some (File gitkeep_text)"
    using d0 le by (auto simp: provisioned_def map_le_def dom_def)
  then have "es' (d0 @ [''.gitkeep'']) = Some (File gitkeep_text)" unfolding w(1) by simp
  with a d0 show "provisioned h es' d0" by (simp add: provisioned_def)
qed

lemma provision_all:
  assumes "list_all (plain_dir h) ds" and "provision h ds es = (es', Inr ())"
  shows "(\<forall>d0. provisioned h es d0 \<longrightarrow> provisioned h es' d0)
         \<and> (\<forall>d \<in> set ds. provisioned h es' (parts h d))"
  using assms
proof (induction ds arbitrary: es)
  case Nil
  then show ?case by simp
next
  case (Cons d ds)
  from Cons.prems(2) obtain es1 where one: "provision_dir h d es = (es1, Inr ())"
    and rest: "provision h ds es1 = (es', Inr ())"
    by (auto split: prod.splits sum.splits)
  from Cons.prems(1) have good: "plain_dir h d" and goods: "list_all (plain_dir h) ds" by simp_all
  note step = provision_dir_step[OF good one]
  note ih = Cons.IH[OF goods rest]
  show ?case using step ih by auto
qed

lemma provision_dir_again:
  assumes "plain_dir h d" and "provisioned h es (parts h d)"
  shows "provision_dir h d es = (es, Inr ())"
proof -
  let ?D = "parts h d" and ?g = "parts h d @ [''.gitkeep'']"
  from assms(2) have D: "walk es [] ?D = Some Dir" and g: "es ?g = Some (File gitkeep_text)"
    and nd: "\<not> denied h ?g" by (simp_all add: provisioned_def)
  have mk: "makedirs h [] ?D es = (es, Inr ())" using D by (rule makedirs_existing)
  have "walk es [] ?g = Some (File gitkeep_text)" using D g by (simp add: walk_gitkeep)
  moreover have "es(?g \<mapsto> File gitkeep_text) = es" using g by (rule map_upd_triv)
  ultimately have "write_text h ?g gitkeep_text es = (es, Inr ())"
    using D nd by (simp add: write_text_def)
  with mk assms(1) show ?thesis by (simp add: provision_dir_def plain_dir_def Let_def)
qed

lemma provision_again:
  assumes "list_all (plain_dir h) ds" and "\<forall>d \<in> set ds. provisioned h es (parts h d)"
  shows "provision h ds es = (es, Inr ())"
  using assms by (induction ds) (simp_all add: provision_dir_again)

lemma empty_dirs_plain: "list_all (plain_dir h) empty_dirs"
  by (cases "os_name h = ''nt''")
     (simp_all add: empty_dirs_def plain_dir_def os_path_join_def os_path_dirname_def parts_def split_at_def
        seps_def sep_def)

lemma initialize_project_entries:
  "entries (fst (initialize_project h w)) = fst (provision h empty_dirs (entries w))"
  "snd (initialize_project h w) = snd (provision h empty_dirs (entries w))"
  by (auto simp: initialize_project_def Let_def split: prod.splits sum.splits)

lemma node_at_gitkeep:
  assumes "d \<in> set empty_dirs"
  shows "parts h (os_path_join h d ''.gitkeep'') = parts h d @ [''.gitkeep'']"
  using empty_dirs_plain[of h] assms by (auto simp: list_all_iff plain_dir_def)

text \<open>Provisioning on the example states.\<close>

lemma fresh_init:
  assumes "\<And>p. \<not> denied h p"
  shows "snd (initialize_project h fresh_world) = Inr ()"
  using assms
  by (cases "os_name h = ''nt''")
     (simp_all add: initialize_project_entries empty_dirs_def provision_dir_def
      os_path_join_def os_path_dirname_def parts_def split_at_def seps_def sep_def
      fresh_world_def write_text_def entry_at_def)

lemma blocked_init:
  "snd (initialize_project demo_host blocked_world) = Inl NotADirectoryError"
  by (simp add: initialize_project_entries empty_dirs_def provision_dir_def
      os_path_join_def os_path_dirname_def parts_def split_at_def seps_def sep_def
      demo_host_def fresh_world_def blocked_world_def entry_at_def)

lemma demo_init:
  "snd (initialize_project demo_host fresh_world) = Inr ()"
  "snd (initialize_project ready_host fresh_world) = Inr ()"
  "snd (initialize_project lost_host fresh_world) = Inr ()"
  by (rule fresh_init, simp add: demo_host_def ready_host_def lost_host_def)+

text \<open>
  Claim C3. When directory provisioning (\<open>initialize_project\<close>) ends without an
  exception, every directory of the fixed list exists and holds a \<open>.gitkeep\<close> file
  whose content is the line \<open># This file ensures the directory is tracked by git\<close>
  followed by a line feed; and a second run from the resulting state ends without an
  exception too and leaves the entries of the file system as they were.
\<close>

theorem provisioning_creates_placeholders_idempotent:
  assumes "initialize_project h w = (w', Inr ())"
  shows "list_all (\<lambda>d. node_at w' (parts h d) = Some Dir
                     \<and> node_at w' (parts h (os_path_join h d ''.gitkeep''))
                         = Some (File (''# This file ensures the directory is tracked by git''
                                       @ [CHR 0x0A])))
           empty_dirs
         \<and> snd (initialize_project h w') = Inr ()
         \<and> entries (fst (initialize_project h w')) = entries w'"
proof -
  from assms have run: "provision h empty_dirs (entries w) = (entries w', Inr ())"
    using initialize_project_entries[of h w] by (simp add: prod_eq_iff)
  from provision_all[OF empty_dirs_plain run]
  have all: "\<forall>d \<in> set empty_dirs. provisioned h (entries w') (parts h d)" by simp
  have "provision h empty_dirs (entries w') = (entries w', Inr ())"
    using empty_dirs_plain all by (rule provision_again)
  then have again: "snd (initialize_project h w') = Inr ()"
    "entries (fst (initialize_project h w')) = entries w'"
    by (simp_all add: initialize_project_entries)
  have "node_at w' (parts h d) = Some Dir
        \<and> node_at w' (parts h (os_path_join h d ''.gitkeep'')) = Some (File gitkeep_text)"
    if "d \<in> set empty_dirs" for d
    using all that by (simp add: node_at_gitkeep node_at_def walk_gitkeep provisioned_def)
  then show ?thesis using again by (simp add: list_all_iff gitkeep_text_def)
qed

text \<open>On the example host, from the empty file system.\<close>

theorem provisioning_creates_placeholders_idempotent_witness:
  "initialize_project demo_host fresh_world
     = (fst (initialize_project demo_host fresh_world), Inr ())
   \<and> list_all (\<lambda>d. node_at (fst (initialize_project demo_host fresh_world)) (parts demo_host d)
                      = Some Dir
                   \<and> node_at (fst (initialize_project demo_host fresh_world))
                        (parts demo_host (os_path_join demo_host d ''.gitkeep''))
                      = Some (File (''# This file ensures the directory is tracked by git''
                                    @ [CHR 0x0A])))
       empty_dirs
   \<and> snd (initialize_project demo_host (fst (initialize_project demo_host fresh_world))) = Inr ()
   \<and> entries (fst (initialize_project demo_host (fst (initialize_project demo_host fresh_world))))
       = entries (fst (initialize_project demo_host fresh_world))"
proof -
  have r: "initialize_project demo_host fresh_world
             = (fst (initialize_project demo_host fresh_world), Inr ())"
    using demo_init(1) by (simp add: prod_eq_iff)
  from provisioning_creates_placeholders_idempotent [OF r] r show ?thesis by simp
qed

subsection \<open>The main flow in closed form\<close>

lemma initialize_project_fields:
  "stdout (fst (initialize_project h w)) =
     stdout w @ starting_line # (case snd (initialize_project h w) of Inl e \<Rightarrow> [] | Inr u \<Rightarrow> closing_lines h)"
  "spawned (fst (initialize_project h w)) = spawned w"
  "environ (fst (initialize_project h w)) = environ w"
  by (auto simp: initialize_project_def Let_def split: prod.splits sum.splits)

lemma pick_fields:
  "stdout (fst (pick_python_interpreter h t w)) = stdout w"
  "environ (fst (pick_python_interpreter h t w)) = environ w"
  "entries (fst (pick_python_interpreter h t w)) = entries w"
  "spawned (fst (pick_python_interpreter h t w)) = spawned w @ probes h t"
  by (simp_all add: pick_python_interpreter_def probe_frame probe_spawned probes_def)

lemma create_venv_unfold:
  "create_venv h py n w =
     (case expanduser h n of
        Inl e \<Rightarrow> (w, Inl e)
      | Inr x \<Rightarrow>
         (case resolve h x of
            Inl e \<Rightarrow> (w, Inl e)
          | Inr p \<Rightarrow>
             (case check_call h [py, ''-m'', ''venv'', p] of
                Inr u \<Rightarrow> (w\<lparr>spawned := spawned w @ [[py, ''-m'', ''venv'', p]]\<rparr>, Inr (Some p))
              | Inl e \<Rightarrow>
                 (case e of
                    CalledProcessError rc cmd \<Rightarrow>
                      (print (venv_error_line h py e)
                         (w\<lparr>spawned := spawned w @ [[py, ''-m'', ''venv'', p]]\<rparr>), Inr None)
                  | _ \<Rightarrow> (w\<lparr>spawned := spawned w @ [[py, ''-m'', ''venv'', p]]\<rparr>, Inl e)))))"
  by (simp add: create_venv_def Let_def split: sum.split exn.split)

lemma create_venv_environ: "environ (fst (create_venv h py n w)) = environ w"
  unfolding create_venv_unfold by (simp split: sum.split exn.split)

lemma pick_chosen: "snd (pick_python_interpreter h t w) = chosen h t"
  by (simp add: pick_python_interpreter_def probe_result chosen_def)

lemma chosen_falsy:
  "falsy (chosen h t) \<longleftrightarrow> falsy (sys_executable h) \<and> find (reports h t) (candidates t) = None"
proof (cases "find (reports h t) (candidates t)")
  case None
  then show ?thesis by (simp add: chosen_def)
next
  case (Some cand)
  then have "reports h t cand" by (auto simp: find_Some_iff)
  then have "\<not> falsy (which h cand)"
    by (auto simp: reports_def falsy_def split: option.splits)
  with Some show ?thesis by (simp add: chosen_def)
qed

lemma venv_step:
  assumes "create_venv h py n w2 = (w3, r)"
  shows "(case r of
            Inl e \<Rightarrow> (printed_by w2 w3, started_by w2 w3, Raised e)
          | Inr None \<Rightarrow>
              (printed_by w2 w3 @ [venv_failed_warning, banner], started_by w2 w3, Completed)
          | Inr (Some p) \<Rightarrow>
              (printed_by w2 w3 @ activation_lines h p @ [banner], started_by w2 w3, Completed))
         = venv_behaviour h py n"
  using assms unfolding create_venv_unfold venv_behaviour_def printed_by_def started_by_def
  by (auto split: sum.splits exn.splits)

lemma main_behaviour:
  "(printed_by w (fst (main h c w)), started_by w (fst (main h c w)), snd (main h c w))
     = behaviour h c w"
proof (cases "initialize_project h w")
  case (Pair w1 r1)
  note i = initialize_project_fields[of h w, unfolded Pair, simplified]
  show ?thesis
  proof (cases r1)
    case (Inl e)
    with Pair i show ?thesis
      by (simp add: main_def behaviour_def printed_by_def started_by_def)
  next
    case (Inr u)
    show ?thesis
    proof (cases "lower (create_virtualenv c) = ''y''")
      case False
      with Pair Inr i show ?thesis
        by (simp add: main_def behaviour_def printed_by_def started_by_def show_welcome_banner_def)
    next
      case True
      obtain w2 py where p: "pick_python_interpreter h (python_version c) w1 = (w2, py)"
        by (cases "pick_python_interpreter h (python_version c) w1")
      have py: "py = chosen h (python_version c)" using pick_chosen[of h "python_version c" w1] p by simp
      note f = pick_fields[of h "python_version c" w1, unfolded p, simplified]
      show ?thesis
      proof (cases "falsy py")
        case True
        with Pair Inr \<open>lower (create_virtualenv c) = ''y''\<close> p py i f show ?thesis
          by (simp add: main_def behaviour_def printed_by_def started_by_def)
      next
        case False
        obtain w3 r where v: "create_venv h (the py) (venv_name c) w2 = (w3, r)"
          by (cases "create_venv h (the py) (venv_name c) w2")
        have pr: "stdout w2 = stdout w @ starting_line # closing_lines h"
          and sp: "spawned w2 = spawned w @ probes h (python_version c)"
          using i f Inr by simp_all
        have ext: "length (stdout w2) \<le> length (stdout w3)" "length (spawned w2) \<le> length (spawned w3)"
          "take (length (stdout w2)) (stdout w3) = stdout w2"
          "take (length (spawned w2)) (spawned w3) = spawned w2"
          using v unfolding create_venv_unfold by (auto split: sum.splits exn.splits)
        have cut: "printed_by w w3 = starting_line # closing_lines h @ printed_by w2 w3"
          "started_by w w3 = probes h (python_version c) @ started_by w2 w3"
          using ext pr sp unfolding printed_by_def started_by_def
          by (metis append_take_drop_id drop_append length_append append.assoc append_eq_conv_conj append_Cons)+
        have le: "length (stdout w) \<le> length (stdout w3)" "length (spawned w) \<le> length (spawned w3)"
          using ext(1,2) pr sp by simp_all
        have m: "main h c w =
            (case r of
               Inl e \<Rightarrow> (w3, Raised e)
             | Inr None \<Rightarrow> (show_welcome_banner (print venv_failed_warning w3), Completed)
             | Inr (Some p) \<Rightarrow> (show_welcome_banner (print_activation_help h p w3), Completed))"
          using Pair Inr \<open>lower (create_virtualenv c) = ''y''\<close> p False v
          by (simp add: main_def split: sum.split option.split)
        have b: "behaviour h c w =
            (case venv_behaviour h (the py) (venv_name c) of
               (ls, ps, out) \<Rightarrow>
                 (starting_line # closing_lines h @ ls, probes h (python_version c) @ ps, out))"
          using Pair Inr \<open>lower (create_virtualenv c) = ''y''\<close> False py
          by (simp add: behaviour_def)
        show ?thesis
          unfolding b venv_step[OF v, symmetric] m
          using cut le
          by (simp add: printed_by_def started_by_def show_welcome_banner_def
                print_activation_help_def split: sum.split option.split)
      qed
    qed
  qed
qed

lemma main_parts:
  "printed_by w (fst (main h c w)) = fst (behaviour h c w)"
  "started_by w (fst (main h c w)) = fst (snd (behaviour h c w))"
  "snd (main h c w) = snd (snd (behaviour h c w))"
  using main_behaviour[of w h c] by (metis fst_conv snd_conv)+

lemma main_environ: "environ (fst (main h c w)) = environ w"
proof -
  obtain w1 r1 where i: "initialize_project h w = (w1, r1)" by (cases "initialize_project h w")
  obtain w2 py where p: "pick_python_interpreter h (python_version c) w1 = (w2, py)"
    by (cases "pick_python_interpreter h (python_version c) w1")
  obtain w3 r3 where v: "create_venv h (the py) (venv_name c) w2 = (w3, r3)"
    by (cases "create_venv h (the py) (venv_name c) w2")
  have "environ w1 = environ w" using initialize_project_fields(3)[of h w] i by simp
  moreover have "environ w2 = environ w1" using pick_fields(2)[of h "python_version c" w1] p by simp
  moreover have "environ w3 = environ w2" using create_venv_environ[of h "the py" "venv_name c" w2] v by simp
  ultimately show ?thesis
    using i p v
    by (simp add: main_def show_welcome_banner_def print_activation_help_def
        split: sum.split option.split)
qed

lemma venv_raises:
  "isl (snd (create_venv h py n w)) \<longleftrightarrow> (\<exists>e. snd (snd (venv_behaviour h py n)) = Raised e)"
  unfolding create_venv_unfold venv_behaviour_def
  by (auto split: sum.splits exn.splits)

subsection \<open>The printed lines are distinct\<close>

lemma banner_not_initial: "banner \<notin> set (starting_line # closing_lines h)"
  by (simp add: banner_def starting_line_def closing_lines_def)

lemma banner_not_warning:
  "banner \<noteq> no_interpreter_warning" "banner \<noteq> venv_failed_warning"
  "banner \<noteq> venv_error_line h py e"
  by (simp_all add: banner_def no_interpreter_warning_def venv_failed_warning_def venv_error_line_def)

lemma guidance_not_other:
  "guidance_line \<notin> set (starting_line # closing_lines h)"
  "guidance_line \<noteq> no_interpreter_warning" "guidance_line \<noteq> venv_failed_warning"
  "guidance_line \<noteq> venv_error_line h py e" "guidance_line \<noteq> banner"
  by (simp_all add: guidance_line_def banner_def starting_line_def closing_lines_def
      no_interpreter_warning_def venv_failed_warning_def venv_error_line_def)

lemma guidance_first: "hd (activation_lines h p) = guidance_line" "guidance_line \<in> set (activation_lines h p)"
  by (simp_all add: activation_lines_def guidance_line_def Let_def)

lemma probes_not_venv: "[py, ''-m'', ''venv'', p] \<notin> set (probes h t)"
  by (auto simp: probes_def)

subsection \<open>The example runs\<close>

lemma demo_chosen:
  "chosen demo_host ''3.11'' = Some ''/usr/bin/python3''"
  "chosen ready_host ''3.11'' = Some ''/usr/bin/python3''"
  "chosen lost_host ''3.11'' = None"
  by (simp_all add: chosen_def candidates_def reports_def demo_host_def ready_host_def
      lost_host_def strip_def isspace_def)

lemma demo_probes:
  "probes demo_host ''3.11'' = [[''/usr/bin/python3'', ''-c'', version_script]]"
  "probes ready_host ''3.11'' = [[''/usr/bin/python3'', ''-c'', version_script]]"
  "probes lost_host ''3.11'' = []"
  by (simp_all add: probes_def candidates_def reports_def on_path_def demo_host_def ready_host_def
      lost_host_def strip_def isspace_def)

lemma demo_venv:
  "venv_behaviour demo_host ''/usr/bin/python3'' ''venv'' =
     ([venv_error_line demo_host ''/usr/bin/python3''
         (CalledProcessError 1 [''/usr/bin/python3'', ''-m'', ''venv'', ''/work/agentforge/hooks/venv'']),
       venv_failed_warning, banner],
      [[''/usr/bin/python3'', ''-m'', ''venv'', ''/work/agentforge/hooks/venv'']], Completed)"
  "venv_behaviour ready_host ''/usr/bin/python3'' ''venv'' =
     (activation_lines ready_host ''/work/agentforge/hooks/venv'' @ [banner],
      [[''/usr/bin/python3'', ''-m'', ''venv'', ''/work/agentforge/hooks/venv'']], Completed)"
  by (simp_all add: venv_behaviour_def check_call_def demo_host_def ready_host_def)

lemma demo_flag: "lower (create_virtualenv demo_ctx) = ''y''" "python_version demo_ctx = ''3.11''"
  "venv_name demo_ctx = ''venv''"
  by (simp_all add: demo_ctx_def lower_def lower_char_def)

lemma demo_behaviour:
  "behaviour demo_host demo_ctx fresh_world =
     (starting_line # closing_lines demo_host
        @ [venv_error_line demo_host ''/usr/bin/python3''
             (CalledProcessError 1 [''/usr/bin/python3'', ''-m'', ''venv'', ''/work/agentforge/hooks/venv'']),
           venv_failed_warning, banner],
      [[''/usr/bin/python3'', ''-c'', version_script],
       [''/usr/bin/python3'', ''-m'', ''venv'', ''/work/agentforge/hooks/venv'']],
      Completed)"
  "behaviour ready_host demo_ctx fresh_world =
     (starting_line # closing_lines ready_host
        @ activation_lines ready_host ''/work/agentforge/hooks/venv'' @ [banner],
      [[''/usr/bin/python3'', ''-c'', version_script],
       [''/usr/bin/python3'', ''-m'', ''venv'', ''/work/agentforge/hooks/venv'']],
      Completed)"
  "behaviour lost_host demo_ctx fresh_world =
     (starting_line # closing_lines lost_host @ [no_interpreter_warning], [], SystemExit 0)"
  "behaviour demo_host demo_ctx blocked_world = ([starting_line], [], Raised NotADirectoryError)"
  by (simp_all add: behaviour_def demo_init blocked_init demo_flag demo_chosen demo_probes
      demo_venv falsy_def)

subsection \<open>Environment creation\<close>



subsection \<open>Environment variables\<close>

text \<open>Without a \<open>.env\<close> file the function prints its notice and returns.\<close>

lemma export_env_variables_absent:
  assumes "node_at w (parts h ''.env'') = None"
  shows "export_env_variables h w =
           (print ([CHR 0xE2, CHR 0x9A, CHR 0xA0] @ [CHR 0xEF, CHR 0xB8, CHR 0x8F]
                   @ '' .env file not found. Please create one to set environment variables.'') w,
            Inr ())"
  using assms by (simp add: export_env_variables_def)

text \<open>
  Claim C5. \<open>export_env_variables\<close> sources \<open>.env\<close> in a child shell, so the variables
  are exported in the environment of the child only: the environment of the hook's
  own process is the same after the call as before, on every host and in every state.
  The main flow, which does not call \<open>export_env_variables\<close>, leaves it unchanged as
  well. On the example host, whose shell exports \<open>API_KEY\<close> in the child, the function
  finds \<open>.env\<close>, prints that the variables were exported and returns, and the process
  still has no \<open>API_KEY\<close>.
\<close>

theorem export_env_variables_keeps_environ:
  "environ (fst (export_env_variables h w)) = environ w
   \<and> environ (fst (main h c w)) = environ w
   \<and> node_at dotenv_world (parts demo_host ''.env'') = Some (File (''API_KEY=secret'' @ [CHR 0x0A]))
   \<and> fst (shell demo_host ''set -a && source .env && set +a'' (environ dotenv_world)) ''API_KEY''
       = Some ''secret''
   \<and> snd (export_env_variables demo_host dotenv_world) = Inr ()
   \<and> stdout (fst (export_env_variables demo_host dotenv_world)) =
       [[CHR 0xF0, CHR 0x9F, CHR 0x94, CHR 0x84]
          @ '' Exporting environment variables from .env file...'',
        [CHR 0xE2, CHR 0x9C, CHR 0x85] @ '' Environment variables exported successfully!'']
   \<and> environ (fst (export_env_variables demo_host dotenv_world)) ''API_KEY'' = None"
proof -
  have g: "environ (fst (export_env_variables h w)) = environ w" for h w
    by (simp add: export_env_variables_def Let_def split: proc.split)
  have n: "node_at dotenv_world (parts demo_host ''.env'') = Some (File (''API_KEY=secret'' @ [CHR 0x0A]))"
    by (simp add: node_at_def parts_def split_at_def seps_def demo_host_def dotenv_world_def
        fresh_world_def entry_at_def)
  have s: "shell demo_host cmd env = (env(''API_KEY'' \<mapsto> ''secret''), Exit 0 [])" for cmd env
    by (simp add: demo_host_def)
  have e: "environ dotenv_world = Map.empty" "stdout dotenv_world = []"
    by (simp_all add: dotenv_world_def fresh_world_def)
  show ?thesis
    using g main_environ n s e by (simp add: export_env_variables_def Let_def)
qed

subsection \<open>The banner\<close>




subsection \<open>Activation guidance\<close>

text \<open>
  Claim C7. The main flow prints the activation guidance if and only if the run
  started a \<open>-m venv\<close> command that ended with return code 0; the guidance for the path
  of that command is then printed in full after the lines of \<open>initialize_project\<close>,
  and the banner follows it. The guidance names \<open>activate\<close>, \<open>pip\<close> and \<open>python\<close> under
  \<open>Scripts\<close> when \<open>os.name\<close> is \<open>nt\<close> and under \<open>bin\<close> otherwise, joined to the path of
  the environment with the separator of the platform.
\<close>

theorem guidance_iff_venv_created:
  "(guidance_line \<in> set (printed_by w (fst (main h c w))) \<longleftrightarrow> venv_created h w (fst (main h c w)))
   \<and> (\<forall>py p out. [py, ''-m'', ''venv'', p] \<in> set (started_by w (fst (main h c w)))
          \<and> run h [py, ''-m'', ''venv'', p] = Exit 0 out
        \<longrightarrow> printed_by w (fst (main h c w))
              = starting_line # closing_lines h @ activation_lines h p @ [banner])
   \<and> activation_lines h venv_path =
       (if os_name h = ''nt'' then
          [guidance_line,
           ''  '' @ joinpath h (joinpath h venv_path ''Scripts'') ''activate'',
           ''Pip:      '' @ joinpath h (joinpath h venv_path ''Scripts'') ''pip'',
           ''Python:   '' @ joinpath h (joinpath h venv_path ''Scripts'') ''python'' @ [CHR 0x0A]]
        else
          [guidance_line,
           ''Activate:'' @ [CHR 0x0A] @ ''  source ''
             @ joinpath h (joinpath h venv_path ''bin'') ''activate'',
           ''Pip:      '' @ joinpath h (joinpath h venv_path ''bin'') ''pip'',
           ''Python:   '' @ joinpath h (joinpath h venv_path ''bin'') ''python'' @ [CHR 0x0A]])
   \<and> (venv_path \<noteq> [] \<and> last venv_path \<notin> set (seps h) \<longrightarrow>
        joinpath h (joinpath h venv_path (if os_name h = ''nt'' then ''Scripts'' else ''bin'')) f
          = venv_path @ (if os_name h = ''nt'' then [CHR 0x5C] @ ''Scripts'' @ [CHR 0x5C]
                         else ''/bin/'') @ f)"
proof -
  have v: "(guidance_line \<in> set ls \<longleftrightarrow>
              (\<exists>py' p out. [py', ''-m'', ''venv'', p] \<in> set ps \<and> run h [py', ''-m'', ''venv'', p] = Exit 0 out))
           \<and> (\<forall>py' p out. [py', ''-m'', ''venv'', p] \<in> set ps \<and> run h [py', ''-m'', ''venv'', p] = Exit 0 out
                \<longrightarrow> ls = activation_lines h p @ [banner])"
    if "venv_behaviour h py nm = (ls, ps, out)" for py nm ls ps out
    using that guidance_first(2) guidance_not_other(3,4,5)
    unfolding venv_behaviour_def check_call_def
    by (auto split: sum.splits exn.splits proc.splits if_splits)
  have a: "(guidance_line \<in> set (fst (behaviour h c w)) \<longleftrightarrow>
              (\<exists>py p out. [py, ''-m'', ''venv'', p] \<in> set (fst (snd (behaviour h c w)))
                 \<and> run h [py, ''-m'', ''venv'', p] = Exit 0 out))
           \<and> (\<forall>py p out. [py, ''-m'', ''venv'', p] \<in> set (fst (snd (behaviour h c w)))
                 \<and> run h [py, ''-m'', ''venv'', p] = Exit 0 out
               \<longrightarrow> fst (behaviour h c w)
                     = starting_line # closing_lines h @ activation_lines h p @ [banner])"
    unfolding behaviour_def
    using guidance_not_other(1)[of h] guidance_not_other(2,5) probes_not_venv
    by (auto split: sum.splits prod.splits dest!: v) blast
  have b: "activation_lines h venv_path =
       (if os_name h = ''nt'' then
          [guidance_line,
           ''  '' @ joinpath h (joinpath h venv_path ''Scripts'') ''activate'',
           ''Pip:      '' @ joinpath h (joinpath h venv_path ''Scripts'') ''pip'',
           ''Python:   '' @ joinpath h (joinpath h venv_path ''Scripts'') ''python'' @ [CHR 0x0A]]
        else
          [guidance_line,
           ''Activate:'' @ [CHR 0x0A] @ ''  source ''
             @ joinpath h (joinpath h venv_path ''bin'') ''activate'',
           ''Pip:      '' @ joinpath h (joinpath h venv_path ''bin'') ''pip'',
           ''Python:   '' @ joinpath h (joinpath h venv_path ''bin'') ''python'' @ [CHR 0x0A]])"
    by (simp add: activation_lines_def guidance_line_def Let_def)
  have d: "venv_path \<noteq> [] \<and> last venv_path \<notin> set (seps h) \<longrightarrow>
        joinpath h (joinpath h venv_path (if os_name h = ''nt'' then ''Scripts'' else ''bin'')) f
          = venv_path @ (if os_name h = ''nt'' then [CHR 0x5C] @ ''Scripts'' @ [CHR 0x5C]
                         else ''/bin/'') @ f"
    by (simp add: joinpath_def seps_def sep_def)
  show ?thesis
    unfolding venv_created_def main_parts using a b d by blast
qed

text \<open>On the example host whose \<open>-m venv\<close> command succeeds.\<close>

theorem guidance_iff_venv_created_witness:
  "venv_created ready_host fresh_world (fst (main ready_host demo_ctx fresh_world))
   \<and> guidance_line \<in> set (printed_by fresh_world (fst (main ready_host demo_ctx fresh_world)))
   \<and> [''/usr/bin/python3'', ''-m'', ''venv'', ''/work/agentforge/hooks/venv'']
       \<in> set (started_by fresh_world (fst (main ready_host demo_ctx fresh_world)))
   \<and> run ready_host [''/usr/bin/python3'', ''-m'', ''venv'', ''/work/agentforge/hooks/venv'']
       = Exit 0 []
   \<and> printed_by fresh_world (fst (main ready_host demo_ctx fresh_world))
       = starting_line # closing_lines ready_host
         @ activation_lines ready_host ''/work/agentforge/hooks/venv'' @ [banner]
   \<and> ''/work/agentforge/hooks/venv'' \<noteq> []
   \<and> last ''/work/agentforge/hooks/venv'' \<notin> set (seps ready_host)
   \<and> joinpath ready_host (joinpath ready_host ''/work/agentforge/hooks/venv'' ''bin'') ''activate''
       = ''/work/agentforge/hooks/venv/bin/activate''"
proof -
  have s: "[''/usr/bin/python3'', ''-m'', ''venv'', ''/work/agentforge/hooks/venv'']
             \<in> set (started_by fresh_world (fst (main ready_host demo_ctx fresh_world)))"
    by (simp add: main_parts demo_behaviour)
  have r: "run ready_host [''/usr/bin/python3'', ''-m'', ''venv'', ''/work/agentforge/hooks/venv'']
             = Exit 0 []"
    by (simp add: ready_host_def demo_host_def)
  have c: "venv_created ready_host fresh_world (fst (main ready_host demo_ctx fresh_world))"
    unfolding venv_created_def using s r by blast
  have p: "''/work/agentforge/hooks/venv'' \<noteq> []"
    "last ''/work/agentforge/hooks/venv'' \<notin> set (seps ready_host)"
    "os_name ready_host \<noteq> ''nt''"
    by (simp_all add: seps_def ready_host_def demo_host_def)
  note t = guidance_iff_venv_created
         [of fresh_world ready_host demo_ctx "''/work/agentforge/hooks/venv''" "''activate''"]
  have g: "guidance_line \<in> set (printed_by fresh_world (fst (main ready_host demo_ctx fresh_world)))"
    using t [THEN conjunct1] c by blast
  have b: "printed_by fresh_world (fst (main ready_host demo_ctx fresh_world))
       = starting_line # closing_lines ready_host
         @ activation_lines ready_host ''/work/agentforge/hooks/venv'' @ [banner]"
    using t [THEN conjunct2, THEN conjunct1] s r by blast
  have j: "joinpath ready_host (joinpath ready_host ''/work/agentforge/hooks/venv'' ''bin'') ''activate''
       = ''/work/agentforge/hooks/venv/bin/activate''"
    using t [THEN conjunct2, THEN conjunct2, THEN conjunct2] p by simp
  show ?thesis using s r c g b j p(1,2) by blast
qed

subsection \<open>The exit for a missing interpreter\<close>

text \<open>
  Claim C9, as amended. \<open>pick_python_interpreter\<close> returns \<open>None\<close> or an empty string
  exactly when no candidate reports the requested version and \<open>sys.executable\<close> is
  \<open>None\<close> or empty. So where \<open>sys.executable\<close> is a non-empty string the function never
  returns a falsy value and the main flow never leaves through \<open>sys.exit\<close>; the exit is
  taken exactly when provisioning succeeded, a virtual environment is requested, no
  candidate reports the requested version and \<open>sys.executable\<close> is \<open>None\<close> or empty.
\<close>

theorem missing_interpreter_exit_needs_no_sys_executable:
  "(falsy (snd (pick_python_interpreter h t w))
      \<longleftrightarrow> falsy (sys_executable h) \<and> find (reports h t) (candidates t) = None)
   \<and> (\<not> falsy (sys_executable h) \<longrightarrow>
        \<not> falsy (snd (pick_python_interpreter h t w)) \<and> (\<forall>n. snd (main h c w) \<noteq> SystemExit n))
   \<and> ((\<exists>n. snd (main h c w) = SystemExit n) \<longleftrightarrow>
        \<not> isl (snd (initialize_project h w)) \<and> lower (create_virtualenv c) = ''y''
        \<and> falsy (sys_executable h)
        \<and> find (reports h (python_version c)) (candidates (python_version c)) = None)"
proof -
  have v: "out \<noteq> SystemExit n"
    if "venv_behaviour h py nm = (ls, ps, out)" for py nm ls ps out n
    using that unfolding venv_behaviour_def by (auto split: sum.splits exn.splits)
  have exit: "(\<exists>n. snd (snd (behaviour h c w)) = SystemExit n) \<longleftrightarrow>
        \<not> isl (snd (initialize_project h w)) \<and> lower (create_virtualenv c) = ''y''
        \<and> falsy (chosen h (python_version c))"
    unfolding behaviour_def by (auto split: sum.splits prod.splits dest: v)
  show ?thesis
    using exit chosen_falsy[of h] unfolding main_parts pick_chosen by blast
qed

text \<open>On the example host, whose \<open>sys.executable\<close> is \<open>/usr/bin/python3\<close>.\<close>

theorem missing_interpreter_exit_needs_no_sys_executable_witness:
  "\<not> falsy (sys_executable demo_host)
   \<and> \<not> falsy (snd (pick_python_interpreter demo_host ''3.11'' fresh_world))
   \<and> snd (main demo_host demo_ctx fresh_world) \<noteq> SystemExit 0"
proof -
  have s: "\<not> falsy (sys_executable demo_host)" by (simp add: falsy_def demo_host_def)
  from missing_interpreter_exit_needs_no_sys_executable
         [of demo_host "''3.11''" fresh_world demo_ctx] s
  show ?thesis by blast
qed

text \<open>
  Claim C9 as stated does not hold for every host: with no candidate on the search
  path and \<open>sys.executable\<close> set to \<open>None\<close>, the function returns \<open>None\<close>, and the main
  flow prints its warning and leaves with \<open>sys.exit(0)\<close>, before the banner.
\<close>

theorem missing_interpreter_exit_reached:
  "snd (pick_python_interpreter lost_host ''3.11'' fresh_world) = None
   \<and> snd (main lost_host demo_ctx fresh_world) = SystemExit 0
   \<and> banner \<notin> set (stdout (fst (main lost_host demo_ctx fresh_world)))"
proof -
  have "stdout fresh_world = []" by (simp add: fresh_world_def)
  then have "stdout (fst (main lost_host demo_ctx fresh_world))
               = starting_line # closing_lines lost_host @ [no_interpreter_warning]"
    using main_parts(1)[of fresh_world lost_host demo_ctx]
    by (simp add: demo_behaviour printed_by_def)
  then show ?thesis
    using main_parts(3)[of lost_host demo_ctx fresh_world] banner_not_initial[of lost_host]
      banner_not_warning(1)
    by (simp add: demo_behaviour pick_chosen demo_chosen)
qed

end

